theory Spec2Isabelle
  imports Complex_Main
begin

section \<open>Residual block utilities of Ceres Solver (internal/ceres/residual_block_utils.cc)\<close>

text \<open>
  The file poisons the output buffers of a user cost function with a sentinel before the
  call (\<open>InvalidateEvaluation\<close>), checks them after the call (\<open>IsEvaluationValid\<close>) and
  renders them as text (\<open>EvaluationToString\<close>, \<open>EvaluationErrorReportString\<close>).

  The buffers are C arrays of \<open>double\<close> reached through pointers that may be \<open>NULL\<close> and
  may alias, so memory is an explicit store from addresses (counted in doubles) to values,
  a \<open>double*\<close> is an optional address, and \<open>double** jacobians\<close> is an optional table from
  the block index to an optional address.
\<close>

subsection \<open>Doubles, memory and the residual block\<close>

text \<open>
  A double is a finite number, one of the two infinities or a NaN. Only this classification
  and equality with the sentinel are used by the code, never arithmetic.
\<close>

datatype double = Finite real | PosInf | NegInf | NaN

type_synonym addr = int
type_synonym heap = "addr \<Rightarrow> double"

text \<open>
  The counts and the loop counters of the code are C \<open>int\<close>s of 32 bits. Where the code multiplies
  two of them the product is taken as the compiled code takes it: modulo \<open>2^32\<close>, in the range from
  \<open>-2^31\<close> to \<open>2^31 - 1\<close> (C++ itself gives a product outside that range no meaning). The sum of a
  pointer and an \<open>int\<close> is an address and does not wrap.
\<close>

definition c_int :: "int \<Rightarrow> int" where
  "c_int x = (x + 2147483648) mod 4294967296 - 2147483648"

definition c_int_mul :: "int \<Rightarrow> int \<Rightarrow> int" where
  "c_int_mul a b = c_int (a * b)"

definition fits_int :: "int \<Rightarrow> bool" where
  "fits_int x = (- 2147483648 \<le> x \<and> x \<le> 2147483647)"

text \<open>
  Modelled from the spec: \<open>IsFinite\<close>, which ceres/internal/port.h (not part of the sources at
  hand) provides. The spec (4.2): finite is neither infinite nor not-a-number.
\<close>

fun IsFinite :: "double \<Rightarrow> bool" where
  "IsFinite (Finite r) = True"
| "IsFinite PosInf = False"
| "IsFinite NegInf = False"
| "IsFinite NaN = False"

text \<open>The C++ operator \<open>==\<close> on doubles: a NaN compares unequal to everything, itself included.\<close>

fun double_eq :: "double \<Rightarrow> double \<Rightarrow> bool" where
  "double_eq NaN y = False"
| "double_eq x NaN = False"
| "double_eq x y = (x = y)"

text \<open>
  Modelled from the spec: the class \<open>ResidualBlock\<close> (ceres/residual_block.h is not part of
  the sources at hand). The spec describes an evaluation unit with a number of residuals and
  an ordered sequence of parameter-block descriptors, each exposing a size;
  \<open>NumParameterBlocks\<close> is the length of that sequence. The code keeps the counts in \<open>int\<close>
  variables: its blocks are the records whose counts are \<open>int\<close>s.
\<close>

record ResidualBlock =
  num_residuals :: int
  parameter_block_sizes :: "int list"

definition NumResiduals :: "ResidualBlock \<Rightarrow> int" where
  "NumResiduals block = num_residuals block"

definition NumParameterBlocks :: "ResidualBlock \<Rightarrow> int" where
  "NumParameterBlocks block = int (length (parameter_block_sizes block))"

text \<open>\<open>block.parameter_blocks()[i]->Size()\<close>, used by the code only for \<open>0 \<le> i < NumParameterBlocks\<close>.\<close>

definition Size :: "ResidualBlock \<Rightarrow> int \<Rightarrow> int" where
  "Size block i = parameter_block_sizes block ! nat i"

subsection \<open>The array helpers (ceres/array_utils.h)\<close>

text \<open>
  The sentinel \<open>kImpossibleValue\<close> is a constant of array_utils whose value is not part of
  the sources at hand: every function below takes it as its first argument, and every
  theorem holds for each value of it.
\<close>

text \<open>
  Modelled from the spec: \<open>IsArrayValid\<close> of ceres/array_utils, which is not part of the
  sources at hand. The spec (4.2, Array Validator): a null buffer pointer with
  \<open>length > 0\<close> is invalid; a null buffer with \<open>length == 0\<close> is vacuously valid; otherwise
  valid iff every element is finite and no element equals the sentinel value, with a
  short-circuit on the first violation.
\<close>

function IsArrayValid_from :: "double \<Rightarrow> int \<Rightarrow> addr \<Rightarrow> heap \<Rightarrow> int \<Rightarrow> bool" where
  "IsArrayValid_from kImpossibleValue sz x h i =
     (if i < sz
      then (if \<not> IsFinite (h (x + i)) \<or> double_eq (h (x + i)) kImpossibleValue
            then False
            else IsArrayValid_from kImpossibleValue sz x h (i + 1))
      else True)"
  by pat_completeness auto
termination
  by (relation "measure (\<lambda>(k, sz, x, h, i). nat (sz - i))") auto

definition IsArrayValid :: "double \<Rightarrow> int \<Rightarrow> addr option \<Rightarrow> heap \<Rightarrow> bool" where
  "IsArrayValid kImpossibleValue sz x h =
     (case x of
        None \<Rightarrow> \<not> 0 < sz
      | Some p \<Rightarrow> IsArrayValid_from kImpossibleValue sz p h 0)"

text \<open>
  Modelled from the spec: \<open>InvalidateArray\<close> of ceres/array_utils, which is not part of the
  sources at hand. The spec (4.1, Sentinel Poisoning): the elements of a buffer, as many as
  its length, are overwritten with the sentinel value; a null pointer is skipped.
\<close>

function InvalidateArray_from :: "double \<Rightarrow> int \<Rightarrow> addr \<Rightarrow> heap \<Rightarrow> int \<Rightarrow> heap" where
  "InvalidateArray_from kImpossibleValue sz x h i =
     (if i < sz
      then InvalidateArray_from kImpossibleValue sz x (h(x + i := kImpossibleValue)) (i + 1)
      else h)"
  by pat_completeness auto
termination
  by (relation "measure (\<lambda>(k, sz, x, h, i). nat (sz - i))") auto

definition InvalidateArray :: "double \<Rightarrow> int \<Rightarrow> addr option \<Rightarrow> heap \<Rightarrow> heap" where
  "InvalidateArray kImpossibleValue sz x h =
     (case x of
        None \<Rightarrow> h
      | Some p \<Rightarrow> InvalidateArray_from kImpossibleValue sz p h 0)"

subsection \<open>InvalidateEvaluation\<close>

text \<open>
  The loop over the Jacobian blocks, from block \<open>i\<close> on; \<open>jacobians\<close> is the table behind the
  non-null \<open>double**\<close>.
\<close>

function InvalidateEvaluation_from ::
  "double \<Rightarrow> ResidualBlock \<Rightarrow> (int \<Rightarrow> addr option) \<Rightarrow> heap \<Rightarrow> int \<Rightarrow> heap" where
  "InvalidateEvaluation_from kImpossibleValue block jacobians h i =
     (if i < NumParameterBlocks block
      then (let parameter_block_size = Size block i
            in InvalidateEvaluation_from kImpossibleValue block jacobians
                 (InvalidateArray kImpossibleValue
                    (c_int_mul (NumResiduals block) parameter_block_size) (jacobians i) h)
                 (i + 1))
      else h)"
  by pat_completeness auto
termination
  by (relation "measure (\<lambda>(k, block, jacobians, h, i). nat (NumParameterBlocks block - i))") auto

definition InvalidateEvaluation ::
  "double \<Rightarrow> ResidualBlock \<Rightarrow> addr option \<Rightarrow> addr option \<Rightarrow> (int \<Rightarrow> addr option) option
     \<Rightarrow> heap \<Rightarrow> heap" where
  "InvalidateEvaluation kImpossibleValue block cost residuals jacobians h =
     (let h1 = InvalidateArray kImpossibleValue 1 cost h;
          h2 = InvalidateArray kImpossibleValue (NumResiduals block) residuals h1
      in case jacobians of
           None \<Rightarrow> h2
         | Some J \<Rightarrow> InvalidateEvaluation_from kImpossibleValue block J h2 0)"

subsection \<open>IsEvaluationValid\<close>

text \<open>
  The body of \<open>IsEvaluationValid\<close> calls the absent helper \<open>IsArrayValid\<close> on the residual vector
  and on every \<open>jacobians[i]\<close>, null or not. The helper is the argument \<open>is_array_valid\<close> of the
  body, since the spec describes its answer on a null buffer twice: 4.2, given above, and 4.3,
  given below. \<open>parameters\<close> and \<open>cost\<close> are arguments of the C++ function that its body never
  reads.
\<close>

function IsEvaluationValid_over_from ::
  "(int \<Rightarrow> addr option \<Rightarrow> heap \<Rightarrow> bool) \<Rightarrow> ResidualBlock \<Rightarrow> (int \<Rightarrow> addr option) \<Rightarrow> heap
     \<Rightarrow> int \<Rightarrow> bool" where
  "IsEvaluationValid_over_from is_array_valid block jacobians h i =
     (if i < NumParameterBlocks block
      then (let parameter_block_size = Size block i
            in if \<not> is_array_valid (c_int_mul (NumResiduals block) parameter_block_size)
                      (jacobians i) h
               then False
               else IsEvaluationValid_over_from is_array_valid block jacobians h (i + 1))
      else True)"
  by pat_completeness auto
termination
  by (relation "measure (\<lambda>(v, block, jacobians, h, i). nat (NumParameterBlocks block - i))") auto

definition IsEvaluationValid_over ::
  "(int \<Rightarrow> addr option \<Rightarrow> heap \<Rightarrow> bool) \<Rightarrow> ResidualBlock \<Rightarrow> (int \<Rightarrow> addr) \<Rightarrow> addr option
     \<Rightarrow> addr option \<Rightarrow> (int \<Rightarrow> addr option) option \<Rightarrow> heap \<Rightarrow> bool" where
  "IsEvaluationValid_over is_array_valid block parameters cost residuals jacobians h =
     (if \<not> is_array_valid (NumResiduals block) residuals h
      then False
      else (case jacobians of
              None \<Rightarrow> True
            | Some J \<Rightarrow> IsEvaluationValid_over_from is_array_valid block J h 0))"

text \<open>\<open>IsEvaluationValid\<close> with the Array Validator of 4.2 for \<open>IsArrayValid\<close>.\<close>

definition IsEvaluationValid ::
  "double \<Rightarrow> ResidualBlock \<Rightarrow> (int \<Rightarrow> addr) \<Rightarrow> addr option \<Rightarrow> addr option
     \<Rightarrow> (int \<Rightarrow> addr option) option \<Rightarrow> heap \<Rightarrow> bool" where
  "IsEvaluationValid kImpossibleValue =
     IsEvaluationValid_over (IsArrayValid kImpossibleValue)"

text \<open>
  Modelled from the spec: \<open>IsArrayValid\<close> (ceres/array_utils, not part of the sources at hand) as
  the Evaluation Validator of the spec has it on a Jacobian entry. The spec (3; 4.3; 8, scenario
  D): an absent entry means that the parameter block is held constant and no derivative was
  requested, a legitimate state and not an error; a null Jacobian block entry is skip-valid; a
  present entry passes iff every element is finite and none equals the sentinel (4.2).
\<close>

definition IsArrayValid_null_tolerant :: "double \<Rightarrow> int \<Rightarrow> addr option \<Rightarrow> heap \<Rightarrow> bool" where
  "IsArrayValid_null_tolerant kImpossibleValue sz x h =
     (case x of
        None \<Rightarrow> True
      | Some p \<Rightarrow> IsArrayValid_from kImpossibleValue sz p h 0)"

subsection \<open>EvaluationToString\<close>

text \<open>\<open>CHECK_NOTNULL\<close> of glog stops the program; the functions that use it return a failure instead.\<close>

datatype failure = CheckFailed

text \<open>
  \<open>StringAppendF(&result, format, ...)\<close> appends to \<open>result\<close> the text that C's \<open>printf\<close> makes
  of the format and the arguments. The only conversion in the complete calls of this file is
  \<open>%d\<close>, the decimal text of an \<open>int\<close>.
\<close>

definition digit :: "nat \<Rightarrow> char" where
  "digit n = ''0123456789'' ! n"

function string_of_nat :: "nat \<Rightarrow> string" where
  "string_of_nat n = (if n < 10 then [digit n] else string_of_nat (n div 10) @ [digit (n mod 10)])"
  by pat_completeness auto
termination
  by (relation "measure id") auto

definition string_of_int :: "int \<Rightarrow> string" where
  "string_of_int i = (if i < 0 then ''-'' @ string_of_nat (nat (- i)) else string_of_nat (nat i))"

text \<open>
  Modelled from the spec: \<open>AppendArrayToString\<close> of ceres/array_utils, which is not part of the
  sources at hand. The spec (4.4, Diagnostic Formatter): an entry is rendered as the literal marker
  "Not Computed" when the buffer is absent, as "Uninitialized" when the sentinel is found at that
  cell, and as the raw value otherwise, non-finite values included. How a raw value is printed is
  the argument \<open>render\<close>.
\<close>

function AppendArrayToString_from ::
  "double \<Rightarrow> (double \<Rightarrow> string) \<Rightarrow> int \<Rightarrow> addr option \<Rightarrow> heap \<Rightarrow> string \<Rightarrow> int \<Rightarrow> string" where
  "AppendArrayToString_from kImpossibleValue render sz x h result i =
     (if i < sz
      then AppendArrayToString_from kImpossibleValue render sz x h
             (result @
                (case x of
                   None \<Rightarrow> ''Not Computed''
                 | Some p \<Rightarrow> if double_eq (h (p + i)) kImpossibleValue
                             then ''Uninitialized''
                             else render (h (p + i))))
             (i + 1)
      else result)"
  by pat_completeness auto
termination
  by (relation "measure (\<lambda>(k, render, sz, x, h, result, i). nat (sz - i))") auto

definition AppendArrayToString ::
  "double \<Rightarrow> (double \<Rightarrow> string) \<Rightarrow> int \<Rightarrow> addr option \<Rightarrow> heap \<Rightarrow> string \<Rightarrow> string" where
  "AppendArrayToString kImpossibleValue render sz x h result =
     AppendArrayToString_from kImpossibleValue render sz x h result 0"

definition explanation :: string where
  "explanation =
     ''For each parameter block, the value of the parameters are printed in the first column   \<newline>'' @
     ''and the value of the jacobian under the corresponding residual. If a ParameterBlock was \<newline>'' @
     ''held constant then the corresponding jacobian is printed as 'Not Computed'. If an entry \<newline>'' @
     ''of the Jacobian/residual array was requested but was not written to by user code, it is \<newline>'' @
     ''indicated by 'Uninitialized'. This is an error. Residuals or Jacobian values evaluating \<newline>'' @
     ''to Inf or NaN is also an error.  \<newline>\<newline>''"

text \<open>
  The three nested loops of \<open>EvaluationToString\<close>, innermost first: over the residuals \<open>k\<close>, over
  the scalars \<open>j\<close> of parameter block \<open>i\<close>, and over the parameter blocks \<open>i\<close>. In
  \<open>jacobians[i] + k * parameter_block_size + j\<close> the product is a product of \<open>int\<close>s and the two
  sums are sums of a pointer and an \<open>int\<close>.
\<close>

function EvaluationToString_residuals ::
  "double \<Rightarrow> (double \<Rightarrow> string) \<Rightarrow> ResidualBlock \<Rightarrow> (int \<Rightarrow> addr option) option \<Rightarrow> heap
     \<Rightarrow> int \<Rightarrow> int \<Rightarrow> string \<Rightarrow> int \<Rightarrow> string" where
  "EvaluationToString_residuals kImpossibleValue render block jacobians h i j result k =
     (if k < NumResiduals block
      then EvaluationToString_residuals kImpossibleValue render block jacobians h i j
             (AppendArrayToString kImpossibleValue render 1
                (case jacobians of
                   None \<Rightarrow> None
                 | Some J \<Rightarrow> (case J i of
                               None \<Rightarrow> None
                             | Some p \<Rightarrow> Some (p + c_int_mul k (Size block i) + j)))
                h result)
             (k + 1)
      else result)"
  by pat_completeness auto
termination
  by (relation "measure (\<lambda>(kiv, render, block, jacobians, h, i, j, result, k).
        nat (NumResiduals block - k))") auto

function EvaluationToString_parameters ::
  "double \<Rightarrow> (double \<Rightarrow> string) \<Rightarrow> ResidualBlock \<Rightarrow> (int \<Rightarrow> addr) \<Rightarrow> (int \<Rightarrow> addr option) option
     \<Rightarrow> heap \<Rightarrow> int \<Rightarrow> string \<Rightarrow> int \<Rightarrow> string" where
  "EvaluationToString_parameters kImpossibleValue render block parameters jacobians h i result j =
     (if j < Size block i
      then (let r1 = AppendArrayToString kImpossibleValue render 1 (Some (parameters i + j)) h result;
                r2 = r1 @ ''| '';
                r3 = EvaluationToString_residuals kImpossibleValue render block jacobians h i j r2 0;
                r4 = r3 @ ''\<newline>''
            in EvaluationToString_parameters kImpossibleValue render block parameters jacobians h i
                 r4 (j + 1))
      else result)"
  by pat_completeness auto
termination
  by (relation "measure (\<lambda>(kiv, render, block, parameters, jacobians, h, i, result, j).
        nat (Size block i - j))") auto

function EvaluationToString_blocks ::
  "double \<Rightarrow> (double \<Rightarrow> string) \<Rightarrow> ResidualBlock \<Rightarrow> (int \<Rightarrow> addr) \<Rightarrow> (int \<Rightarrow> addr option) option
     \<Rightarrow> heap \<Rightarrow> string \<Rightarrow> int \<Rightarrow> string" where
  "EvaluationToString_blocks kImpossibleValue render block parameters jacobians h result i =
     (if i < NumParameterBlocks block
      then (let parameter_block_size = Size block i;
                r1 = result @ ''Parameter Block '' @ string_of_int i @ '', size: '' @
                       string_of_int parameter_block_size @ ''\<newline>'';
                r2 = r1 @ ''\<newline>'';
                r3 = EvaluationToString_parameters kImpossibleValue render block parameters
                       jacobians h i r2 0;
                r4 = r3 @ ''\<newline>''
            in EvaluationToString_blocks kImpossibleValue render block parameters jacobians h
                 r4 (i + 1))
      else result)"
  by pat_completeness auto
termination
  by (relation "measure (\<lambda>(kiv, render, block, parameters, jacobians, h, result, i).
        nat (NumParameterBlocks block - i))") auto

definition EvaluationToString ::
  "double \<Rightarrow> (double \<Rightarrow> string) \<Rightarrow> ResidualBlock \<Rightarrow> (int \<Rightarrow> addr) \<Rightarrow> addr option \<Rightarrow> addr option
     \<Rightarrow> (int \<Rightarrow> addr option) option \<Rightarrow> heap \<Rightarrow> failure + string" where
  "EvaluationToString kImpossibleValue render block parameters cost residuals jacobians h =
     (if cost = None then Inl CheckFailed
      else if residuals = None then Inl CheckFailed
      else
        (let r0 = '''';
             r1 = r0 @ ''Residual Block size: '' @ string_of_int (NumParameterBlocks block) @
                    '' parameter blocks x '' @ string_of_int (NumResiduals block) @
                    '' residuals\<newline>\<newline>'';
             r2 = r1 @ explanation;
             space = ''Residuals:     '';
             r3 = r2 @ space;
             r4 = AppendArrayToString kImpossibleValue render (NumResiduals block) residuals h r3;
             r5 = r4 @ ''\<newline>\<newline>'';
             r6 = EvaluationToString_blocks kImpossibleValue render block parameters jacobians h r5 0;
             r7 = r6 @ ''\<newline>''
         in Inr r7))"

subsection \<open>EvaluationErrorReportString\<close>

text \<open>
  Modelled from the spec: \<open>IsUserSuppliedValueValid\<close>, which the report calls and which is not
  part of the sources at hand. The spec (4.2): the per-element classification, finite and not the
  sentinel.
\<close>

definition IsUserSuppliedValueValid :: "double \<Rightarrow> double \<Rightarrow> bool" where
  "IsUserSuppliedValueValid kImpossibleValue x = (IsFinite x \<and> \<not> double_eq x kImpossibleValue)"

definition UserSuppliedNumberCommentary :: "double \<Rightarrow> double \<Rightarrow> string" where
  "UserSuppliedNumberCommentary kImpossibleValue x =
     (if \<not> IsFinite x then ''ERROR: Value is not finite''
      else if double_eq x kImpossibleValue then ''ERROR: Value was not set by cost function''
      else ''OK'')"

text \<open>
  \<open>EvaluationErrorReportString\<close> is not a complete C++ function: after step (3) its loops are
  bounded by \<open>parameter_block_size\<close>, which is declared only inside their bodies, and its last
  statement breaks off after the format string (at the remark "WIP DO NOT COMMIT"). What is
  embedded is what can be read off the text: step (3), the residual section, and the test that
  steps (4) and (5) apply to Jacobian block \<open>i\<close>.

  In step (3) the call of \<open>StringAppendF\<close> is given the format of a line (index, value, commentary)
  and the commentary \<open>UserSuppliedNumberCommentary(residuals[i])\<close> only: neither \<open>&result\<close> nor \<open>i\<close>
  nor \<open>residuals[i]\<close>. \<open>result\<close> is not among its arguments, so the statement leaves \<open>result\<close>
  as it is. \<open>residuals\<close> has passed \<open>CHECK_NOTNULL\<close> and is an address.
\<close>

function EvaluationErrorReportString_residual_entries ::
  "double \<Rightarrow> ResidualBlock \<Rightarrow> addr \<Rightarrow> heap \<Rightarrow> string \<Rightarrow> int \<Rightarrow> string" where
  "EvaluationErrorReportString_residual_entries kImpossibleValue block residuals h result i =
     (if i < NumResiduals block
      then (if \<not> IsUserSuppliedValueValid kImpossibleValue (h (residuals + i)) \<or>
               NumResiduals block < 50
            then (let commentary = UserSuppliedNumberCommentary kImpossibleValue (h (residuals + i))
                  in EvaluationErrorReportString_residual_entries kImpossibleValue block residuals h
                       result (i + 1))
            else EvaluationErrorReportString_residual_entries kImpossibleValue block residuals h
                   result (i + 1))
      else result)"
  by pat_completeness auto
termination
  by (relation "measure (\<lambda>(kiv, block, residuals, h, result, i). nat (NumResiduals block - i))")
     auto

definition EvaluationErrorReportString_residuals ::
  "double \<Rightarrow> ResidualBlock \<Rightarrow> addr \<Rightarrow> heap \<Rightarrow> string \<Rightarrow> string" where
  "EvaluationErrorReportString_residuals kImpossibleValue block residuals h result =
     (if \<not> IsArrayValid kImpossibleValue (NumResiduals block) (Some residuals) h
      then EvaluationErrorReportString_residual_entries kImpossibleValue block residuals h
             (result @ ''Problem exists in: User-returned residual values (r[N])\<newline>'' @
                       ''\<newline>'')
             0
      else result)"

text \<open>
  The test of steps (4) and (5) on block \<open>i\<close>: \<open>jacobians[i] != NULL &&
  !IsArrayValid(parameter_block_size * num_residuals, residuals)\<close>. The buffer it validates is
  \<open>residuals\<close>.
\<close>

definition EvaluationErrorReportString_jacobian_problem ::
  "double \<Rightarrow> ResidualBlock \<Rightarrow> addr \<Rightarrow> (int \<Rightarrow> addr option) \<Rightarrow> heap \<Rightarrow> int \<Rightarrow> bool" where
  "EvaluationErrorReportString_jacobian_problem kImpossibleValue block residuals jacobians h i =
     (let parameter_block_size = Size block i
      in jacobians i \<noteq> None \<and>
         \<not> IsArrayValid kImpossibleValue (c_int_mul parameter_block_size (NumResiduals block))
             (Some residuals) h)"

text \<open>
  The defining equations of the loops are recursive and unconditional; they are unfolded by hand.
\<close>

declare IsArrayValid_from.simps [simp del] InvalidateArray_from.simps [simp del]
  InvalidateEvaluation_from.simps [simp del] IsEvaluationValid_over_from.simps [simp del]
  string_of_nat.simps [simp del] AppendArrayToString_from.simps [simp del]
  EvaluationToString_residuals.simps [simp del] EvaluationToString_parameters.simps [simp del]
  EvaluationToString_blocks.simps [simp del]
  EvaluationErrorReportString_residual_entries.simps [simp del]

subsection \<open>The vocabulary of the specification\<close>

text \<open>
  A value is acceptable when it is finite and is not the sentinel. A cell \<open>a\<close> belongs to a buffer
  of \<open>n\<close> elements at \<open>x\<close> when \<open>x\<close> is not null and \<open>a\<close> is one of its \<open>n\<close> addresses; it belongs
  to the Jacobian blocks when the Jacobian array is not null and \<open>a\<close> belongs to the buffer of
  \<open>NumResiduals * size_i\<close> elements of some block \<open>i\<close>. The shape of a block fits when each of the
  products \<open>NumResiduals * size_i\<close> fits an \<open>int\<close>.
\<close>

definition in_array :: "int \<Rightarrow> addr option \<Rightarrow> addr \<Rightarrow> bool" where
  "in_array n x a = (case x of None \<Rightarrow> False | Some p \<Rightarrow> p \<le> a \<and> a < p + n)"

definition in_jacobians :: "ResidualBlock \<Rightarrow> (int \<Rightarrow> addr option) option \<Rightarrow> addr \<Rightarrow> bool" where
  "in_jacobians block jacobians a =
     (case jacobians of
        None \<Rightarrow> False
      | Some J \<Rightarrow> list_ex (\<lambda>i. in_array (NumResiduals block * Size block i) (J i) a)
                    [0 .. NumParameterBlocks block - 1])"

definition shape_fits_int :: "ResidualBlock \<Rightarrow> bool" where
  "shape_fits_int block =
     list_all (\<lambda>i. fits_int (NumResiduals block * Size block i))
       [0 .. NumParameterBlocks block - 1]"

definition value_ok :: "double \<Rightarrow> double \<Rightarrow> bool" where
  "value_ok kImpossibleValue v = (IsFinite v \<and> v \<noteq> kImpossibleValue)"

definition written_by_InvalidateEvaluation ::
  "ResidualBlock \<Rightarrow> addr option \<Rightarrow> addr option \<Rightarrow> (int \<Rightarrow> addr option) option \<Rightarrow> addr \<Rightarrow> bool" where
  "written_by_InvalidateEvaluation block cost residuals jacobians a =
     (in_array 1 cost a \<or> in_array (NumResiduals block) residuals a \<or>
      in_jacobians block jacobians a)"

text \<open>
  The cells that the code reaches in the Jacobian blocks, at the length that it computes for each
  block, and the cells that \<open>IsEvaluationValid\<close> reads: those of the residual vector and those.
  Where the shape fits they are the cells of the Jacobian blocks.
\<close>

definition in_jacobians_as_computed ::
  "ResidualBlock \<Rightarrow> (int \<Rightarrow> addr option) option \<Rightarrow> addr \<Rightarrow> bool" where
  "in_jacobians_as_computed block jacobians a =
     (case jacobians of
        None \<Rightarrow> False
      | Some J \<Rightarrow> list_ex (\<lambda>i. in_array (c_int_mul (NumResiduals block) (Size block i)) (J i) a)
                    [0 .. NumParameterBlocks block - 1])"

definition read_by_IsEvaluationValid ::
  "ResidualBlock \<Rightarrow> addr option \<Rightarrow> (int \<Rightarrow> addr option) option \<Rightarrow> addr \<Rightarrow> bool" where
  "read_by_IsEvaluationValid block residuals jacobians a =
     (in_array (NumResiduals block) residuals a \<or> in_jacobians_as_computed block jacobians a)"

text \<open>
  The full dump as the specification words it: per parameter block, one line per scalar
  parameter \<open>j\<close> with the parameter's value and then, for each residual \<open>k\<close>, the Jacobian entry at
  flat offset \<open>k * size_i + j\<close> of the block's buffer, "Not Computed" when the block's Jacobian is
  absent and "Uninitialized" where the sentinel is found.
\<close>

definition value_text :: "double \<Rightarrow> (double \<Rightarrow> string) \<Rightarrow> double \<Rightarrow> string" where
  "value_text kImpossibleValue render v =
     (if double_eq v kImpossibleValue then ''Uninitialized'' else render v)"

definition jacobian_cell_text ::
  "double \<Rightarrow> (double \<Rightarrow> string) \<Rightarrow> ResidualBlock \<Rightarrow> (int \<Rightarrow> addr option) option \<Rightarrow> heap
     \<Rightarrow> int \<Rightarrow> int \<Rightarrow> int \<Rightarrow> string" where
  "jacobian_cell_text kImpossibleValue render block jacobians h i j k =
     (case jacobians of
        None \<Rightarrow> ''Not Computed''
      | Some J \<Rightarrow> (case J i of
                    None \<Rightarrow> ''Not Computed''
                  | Some p \<Rightarrow> value_text kImpossibleValue render (h (p + (k * Size block i + j)))))"

definition parameter_line_text ::
  "double \<Rightarrow> (double \<Rightarrow> string) \<Rightarrow> ResidualBlock \<Rightarrow> (int \<Rightarrow> addr) \<Rightarrow> (int \<Rightarrow> addr option) option
     \<Rightarrow> heap \<Rightarrow> int \<Rightarrow> int \<Rightarrow> string" where
  "parameter_line_text kImpossibleValue render block parameters jacobians h i j =
     value_text kImpossibleValue render (h (parameters i + j)) @ ''| '' @
     concat (map (jacobian_cell_text kImpossibleValue render block jacobians h i j)
               [0 .. NumResiduals block - 1]) @
     ''\<newline>''"

definition parameter_block_text ::
  "double \<Rightarrow> (double \<Rightarrow> string) \<Rightarrow> ResidualBlock \<Rightarrow> (int \<Rightarrow> addr) \<Rightarrow> (int \<Rightarrow> addr option) option
     \<Rightarrow> heap \<Rightarrow> int \<Rightarrow> string" where
  "parameter_block_text kImpossibleValue render block parameters jacobians h i =
     ''Parameter Block '' @ string_of_int i @ '', size: '' @ string_of_int (Size block i) @
     ''\<newline>\<newline>'' @
     concat (map (parameter_line_text kImpossibleValue render block parameters jacobians h i)
               [0 .. Size block i - 1]) @
     ''\<newline>''"

definition full_dump_text ::
  "double \<Rightarrow> (double \<Rightarrow> string) \<Rightarrow> ResidualBlock \<Rightarrow> (int \<Rightarrow> addr) \<Rightarrow> addr
     \<Rightarrow> (int \<Rightarrow> addr option) option \<Rightarrow> heap \<Rightarrow> string" where
  "full_dump_text kImpossibleValue render block parameters residuals jacobians h =
     ''Residual Block size: '' @ string_of_int (NumParameterBlocks block) @
     '' parameter blocks x '' @ string_of_int (NumResiduals block) @ '' residuals\<newline>\<newline>'' @
     explanation @
     ''Residuals:     '' @
     concat (map (\<lambda>k. value_text kImpossibleValue render (h (residuals + k)))
               [0 .. NumResiduals block - 1]) @
     ''\<newline>\<newline>'' @
     concat (map (parameter_block_text kImpossibleValue render block parameters jacobians h)
               [0 .. NumParameterBlocks block - 1]) @
     ''\<newline>''"

subsection \<open>Concrete evaluations\<close>

text \<open>
  The shape of the scenarios of the specification: one parameter block of size 3 and two
  residuals. The cost is at address 0, the residuals \<open>[1.0, 2.0]\<close> at 10, the Jacobian
  \<open>[0.1, 0.2, 0.3, 0.4, 0.5, 0.6]\<close> at 20 and the parameters at 30. The value \<open>1e302\<close> stands for
  the sentinel in them.
\<close>

definition example_sentinel :: double where
  "example_sentinel = Finite (10 ^ 302)"

definition scenario_block :: ResidualBlock where
  "scenario_block = \<lparr>num_residuals = 2, parameter_block_sizes = [3]\<rparr>"

definition memory_of :: "(addr \<times> double) list \<Rightarrow> heap" where
  "memory_of cells a = (case map_of cells a of None \<Rightarrow> Finite 0 | Some v \<Rightarrow> v)"

definition scenario_heap :: heap where
  "scenario_heap = memory_of
     [(0, Finite 0),
      (10, Finite 1), (11, Finite 2),
      (20, Finite (1/10)), (21, Finite (2/10)), (22, Finite (3/10)),
      (23, Finite (4/10)), (24, Finite (5/10)), (25, Finite (6/10)),
      (30, Finite 7), (31, Finite 8), (32, Finite 9)]"

definition one_block_at :: "addr option \<Rightarrow> int \<Rightarrow> addr option" where
  "one_block_at p i = (if i = 0 then p else None)"

text \<open>Two residuals and one parameter block of size 1.\<close>

definition column_block :: ResidualBlock where
  "column_block = \<lparr>num_residuals = 2, parameter_block_sizes = [1]\<rparr>"

section \<open>Properties\<close>

subsection \<open>What the loops compute\<close>

lemma double_eq_finite: "IsFinite v \<Longrightarrow> double_eq v s = (v = s)"
  by (cases v; cases s) auto

lemma double_eq_self: "IsFinite s \<Longrightarrow> double_eq s s"
  by (cases s) auto

lemma IsArrayValid_from_iff:
  "IsArrayValid_from s n x h i = (\<forall>j. i \<le> j \<and> j < n \<longrightarrow> value_ok s (h (x + j)))"
proof (induction s n x h i rule: IsArrayValid_from.induct)
  case (1 s n x h i)
  show ?case
  proof (cases "i < n")
    case False
    then show ?thesis by (subst IsArrayValid_from.simps) auto
  next
    case True
    have split: "\<And>P. (\<forall>j. i \<le> j \<and> j < n \<longrightarrow> P j) = (P i \<and> (\<forall>j. i + 1 \<le> j \<and> j < n \<longrightarrow> P j))"
      using True by (metis add1_zle_eq order_le_less)
    show ?thesis
    proof (cases "value_ok s (h (x + i))")
      case True
      with \<open>i < n\<close> 1 show ?thesis
        by (subst IsArrayValid_from.simps, subst split) (auto simp: value_ok_def double_eq_finite)
    next
      case False
      with \<open>i < n\<close> show ?thesis
        by (subst IsArrayValid_from.simps, subst split) (auto simp: value_ok_def double_eq_finite)
    qed
  qed
qed

lemma IsArrayValid_iff:
  "IsArrayValid s n x h =
     (case x of None \<Rightarrow> n \<le> 0 | Some p \<Rightarrow> (\<forall>a. p \<le> a \<and> a < p + n \<longrightarrow> value_ok s (h a)))"
proof (cases x)
  case None
  then show ?thesis by (auto simp: IsArrayValid_def)
next
  case (Some p)
  have "(\<forall>j. 0 \<le> j \<and> j < n \<longrightarrow> value_ok s (h (p + j))) = (\<forall>a. p \<le> a \<and> a < p + n \<longrightarrow> value_ok s (h a))"
  proof
    assume L: "\<forall>j. 0 \<le> j \<and> j < n \<longrightarrow> value_ok s (h (p + j))"
    show "\<forall>a. p \<le> a \<and> a < p + n \<longrightarrow> value_ok s (h a)"
    proof (intro allI impI)
      fix a assume "p \<le> a \<and> a < p + n"
      then have "0 \<le> a - p \<and> a - p < n" by simp
      with L have "value_ok s (h (p + (a - p)))" by blast
      then show "value_ok s (h a)" by simp
    qed
  next
    assume "\<forall>a. p \<le> a \<and> a < p + n \<longrightarrow> value_ok s (h a)"
    then show "\<forall>j. 0 \<le> j \<and> j < n \<longrightarrow> value_ok s (h (p + j))" by simp
  qed
  with Some show ?thesis by (simp add: IsArrayValid_def IsArrayValid_from_iff)
qed

lemma IsArrayValid_Some_iff:
  "IsArrayValid s n (Some p) h = (\<forall>k. 0 \<le> k \<and> k < n \<longrightarrow> value_ok s (h (p + k)))"
  by (simp add: IsArrayValid_def IsArrayValid_from_iff)



lemma c_int_fits: "fits_int x \<Longrightarrow> c_int x = x"
  by (simp add: fits_int_def c_int_def)

lemma shape_fits_int_iff:
  "shape_fits_int block =
     (\<forall>i. 0 \<le> i \<and> i < NumParameterBlocks block \<longrightarrow> fits_int (NumResiduals block * Size block i))"
  by (auto simp: shape_fits_int_def list_all_iff)

lemma c_int_mul_shape:
  "shape_fits_int block \<Longrightarrow> 0 \<le> i \<Longrightarrow> i < NumParameterBlocks block \<Longrightarrow>
   c_int_mul (NumResiduals block) (Size block i) = NumResiduals block * Size block i"
  by (simp add: shape_fits_int_iff c_int_mul_def c_int_fits)

text \<open>Inside a block whose length fits, the offset of row \<open>k\<close> fits as well.\<close>

lemma c_int_mul_row:
  assumes "fits_int (n * m)" and "0 \<le> k" and "k < n" and "0 \<le> j" and "j < m"
  shows "c_int_mul k m = k * m"
proof -
  from assms have "0 \<le> k * m" by simp
  moreover from assms have "k * m \<le> n * m" by (simp add: mult_right_mono)
  ultimately have "fits_int (k * m)"
    using assms(1) by (simp add: fits_int_def)
  then show ?thesis by (simp add: c_int_mul_def c_int_fits)
qed

lemma IsEvaluationValid_over_from_iff:
  "IsEvaluationValid_over_from V block J h i =
     (\<forall>j. i \<le> j \<and> j < NumParameterBlocks block \<longrightarrow>
          V (c_int_mul (NumResiduals block) (Size block j)) (J j) h)"
proof (induction V block J h i rule: IsEvaluationValid_over_from.induct)
  case (1 V block J h i)
  show ?case
  proof (cases "i < NumParameterBlocks block")
    case False
    then show ?thesis by (subst IsEvaluationValid_over_from.simps) auto
  next
    case True
    have split: "\<And>P. (\<forall>j. i \<le> j \<and> j < NumParameterBlocks block \<longrightarrow> P j)
        = (P i \<and> (\<forall>j. i + 1 \<le> j \<and> j < NumParameterBlocks block \<longrightarrow> P j))"
      using True by (metis add1_zle_eq order_le_less)
    show ?thesis
    proof (cases "V (c_int_mul (NumResiduals block) (Size block i)) (J i) h")
      case True
      with \<open>i < NumParameterBlocks block\<close> 1 show ?thesis
        by (subst IsEvaluationValid_over_from.simps, subst split) simp
    next
      case False
      with \<open>i < NumParameterBlocks block\<close> show ?thesis
        by (subst IsEvaluationValid_over_from.simps, subst split) simp
    qed
  qed
qed

lemma IsEvaluationValid_over_iff:
  "IsEvaluationValid_over V block parameters cost residuals jacobians h =
     (V (NumResiduals block) residuals h \<and>
      (case jacobians of
         None \<Rightarrow> True
       | Some J \<Rightarrow> \<forall>i. 0 \<le> i \<and> i < NumParameterBlocks block \<longrightarrow>
                     V (c_int_mul (NumResiduals block) (Size block i)) (J i) h))"
  by (cases jacobians) (simp_all add: IsEvaluationValid_over_def IsEvaluationValid_over_from_iff)

lemma IsEvaluationValid_iff:
  "IsEvaluationValid s block parameters cost residuals jacobians h =
     (IsArrayValid s (NumResiduals block) residuals h \<and>
      (case jacobians of
         None \<Rightarrow> True
       | Some J \<Rightarrow> \<forall>i. 0 \<le> i \<and> i < NumParameterBlocks block \<longrightarrow>
                     IsArrayValid s (c_int_mul (NumResiduals block) (Size block i)) (J i) h))"
  by (simp add: IsEvaluationValid_def IsEvaluationValid_over_iff)

lemma IsArrayValid_cong:
  assumes "\<And>a. in_array n x a \<Longrightarrow> h1 a = h2 a"
  shows "IsArrayValid s n x h1 = IsArrayValid s n x h2"
  using assms by (cases x) (auto simp: IsArrayValid_iff in_array_def)

lemma InvalidateArray_from_apply:
  "InvalidateArray_from s n x h i a = (if x + i \<le> a \<and> a < x + n then s else h a)"
proof (induction s n x h i rule: InvalidateArray_from.induct)
  case (1 s n x h i)
  show ?case
  proof (cases "i < n")
    case False
    then show ?thesis by (subst InvalidateArray_from.simps) auto
  next
    case True
    have "InvalidateArray_from s n x h i a
        = InvalidateArray_from s n x (h(x + i := s)) (i + 1) a"
      using True by (subst InvalidateArray_from.simps) simp
    also have "\<dots> = (if x + (i + 1) \<le> a \<and> a < x + n then s else (h(x + i := s)) a)"
      by (rule 1 [OF True])
    also have "\<dots> = (if x + i \<le> a \<and> a < x + n then s else h a)"
      using True by auto
    finally show ?thesis .
  qed
qed

lemma InvalidateArray_apply:
  "InvalidateArray s n x h a = (if in_array n x a then s else h a)"
  by (cases x) (auto simp: InvalidateArray_def in_array_def InvalidateArray_from_apply)

lemma list_ex_upto: "list_ex P [i..j] = (\<exists>k. i \<le> k \<and> k \<le> j \<and> P k)"
  by (auto simp: list_ex_iff)

text \<open>
  For counts that are not negative the length that the code computes for a block is never more
  than \<open>NumResiduals * size_i\<close>, so the cells it reaches there are cells of the block.
\<close>

lemma c_int_le: "0 \<le> x \<Longrightarrow> c_int x \<le> x"
proof -
  assume "0 \<le> x"
  then have "(x + 2147483648) mod 4294967296 \<le> x + 2147483648"
    by (intro zmod_le_nonneg_dividend) simp
  then show ?thesis by (simp add: c_int_def)
qed

lemma in_jacobians_as_computed_within:
  assumes "0 \<le> NumResiduals block"
    and "\<forall>i. 0 \<le> i \<and> i < NumParameterBlocks block \<longrightarrow> 0 \<le> Size block i"
    and "in_jacobians_as_computed block jacobians a"
  shows "in_jacobians block jacobians a"
proof (cases jacobians)
  case None
  with assms(3) show ?thesis by (simp add: in_jacobians_as_computed_def)
next
  case (Some J)
  with assms(3) obtain i where i: "0 \<le> i" "i \<le> NumParameterBlocks block - 1"
    and a: "in_array (c_int_mul (NumResiduals block) (Size block i)) (J i) a"
    by (auto simp: in_jacobians_as_computed_def list_ex_upto)
  from assms(1,2) i have "0 \<le> NumResiduals block * Size block i" by simp
  then have "c_int_mul (NumResiduals block) (Size block i) \<le> NumResiduals block * Size block i"
    unfolding c_int_mul_def by (rule c_int_le)
  with a have "in_array (NumResiduals block * Size block i) (J i) a"
    by (cases "J i") (auto simp: in_array_def)
  with i Some show ?thesis
    by (auto simp: in_jacobians_def list_ex_upto)
qed

lemma InvalidateEvaluation_from_apply:
  "InvalidateEvaluation_from s block J h i a =
     (if \<exists>j. i \<le> j \<and> j < NumParameterBlocks block \<and>
              in_array (c_int_mul (NumResiduals block) (Size block j)) (J j) a
      then s else h a)"
proof (induction s block J h i rule: InvalidateEvaluation_from.induct)
  case (1 s block J h i)
  show ?case
  proof (cases "i < NumParameterBlocks block")
    case False
    then show ?thesis by (subst InvalidateEvaluation_from.simps) auto
  next
    case True
    have split: "\<And>P. (\<exists>j. i \<le> j \<and> j < NumParameterBlocks block \<and> P j)
        = (P i \<or> (\<exists>j. i + 1 \<le> j \<and> j < NumParameterBlocks block \<and> P j))"
      using True by (metis add1_zle_eq order_le_less)
    let ?h1 = "InvalidateArray s (c_int_mul (NumResiduals block) (Size block i)) (J i) h"
    have "InvalidateEvaluation_from s block J h i a
        = InvalidateEvaluation_from s block J ?h1 (i + 1) a"
      using True by (subst InvalidateEvaluation_from.simps) (simp add: Let_def)
    also have "\<dots> = (if \<exists>j. i + 1 \<le> j \<and> j < NumParameterBlocks block \<and>
              in_array (c_int_mul (NumResiduals block) (Size block j)) (J j) a then s else ?h1 a)"
      by (rule 1 [OF True refl])
    also have "\<dots> = (if in_array (c_int_mul (NumResiduals block) (Size block i)) (J i) a \<or>
           (\<exists>j. i + 1 \<le> j \<and> j < NumParameterBlocks block \<and>
              in_array (c_int_mul (NumResiduals block) (Size block j)) (J j) a) then s else h a)"
      by (auto simp: InvalidateArray_apply)
    finally show ?thesis by (simp only: split)
  qed
qed

lemma InvalidateEvaluation_apply:
  "InvalidateEvaluation s block cost residuals jacobians h a =
     (if in_array 1 cost a \<or> in_array (NumResiduals block) residuals a \<or>
         in_jacobians_as_computed block jacobians a
      then s else h a)"
proof (cases jacobians)
  case None
  then show ?thesis
    by (simp add: InvalidateEvaluation_def in_jacobians_as_computed_def InvalidateArray_apply)
next
  case (Some J)
  have "(\<exists>j. 0 \<le> j \<and> j < NumParameterBlocks block \<and>
           in_array (c_int_mul (NumResiduals block) (Size block j)) (J j) a)
      = in_jacobians_as_computed block jacobians a"
    using Some by (auto simp: in_jacobians_as_computed_def list_ex_upto)
  with Some show ?thesis
    by (simp add: InvalidateEvaluation_def InvalidateArray_apply InvalidateEvaluation_from_apply)
qed

lemma in_jacobians_as_computed_fits:
  "shape_fits_int block \<Longrightarrow>
   in_jacobians_as_computed block jacobians a = in_jacobians block jacobians a"
proof (cases jacobians)
  case None
  then show ?thesis by (simp add: in_jacobians_as_computed_def in_jacobians_def)
next
  case (Some J)
  assume "shape_fits_int block"
  then have "in_array (c_int_mul (NumResiduals block) (Size block i)) (J i) a
           = in_array (NumResiduals block * Size block i) (J i) a"
    if "0 \<le> i" "i \<le> NumParameterBlocks block - 1" for i
    using that by (simp add: c_int_mul_shape)
  with Some show ?thesis
    by (auto simp: in_jacobians_as_computed_def in_jacobians_def list_ex_upto)
qed

lemma AppendArrayToString_from_eq:
  "AppendArrayToString_from s render n x h result i =
     result @ concat (map (\<lambda>k. case x of None \<Rightarrow> ''Not Computed''
                                 | Some p \<Rightarrow> value_text s render (h (p + k))) [i .. n - 1])"
proof (induction s render n x h result i rule: AppendArrayToString_from.induct)
  case (1 s render n x h result i)
  show ?case
  proof (cases "i < n")
    case False
    then show ?thesis by (subst AppendArrayToString_from.simps) simp
  next
    case True
    then have upt: "[i .. n - 1] = i # [i + 1 .. n - 1]"
      by (simp add: upto_rec1)
    show ?thesis
      using True
      by (subst AppendArrayToString_from.simps)
         (simp add: 1 [OF True] upt value_text_def split: option.splits)
  qed
qed

lemma AppendArrayToString_one_Some:
  "AppendArrayToString s render 1 (Some p) h result = result @ value_text s render (h p)"
  by (simp add: AppendArrayToString_def AppendArrayToString_from_eq)

lemma AppendArrayToString_one_None:
  "AppendArrayToString s render 1 None h result = result @ ''Not Computed''"
  by (simp add: AppendArrayToString_def AppendArrayToString_from_eq)

lemma EvaluationToString_residuals_eq:
  assumes "fits_int (NumResiduals block * Size block i)" and "0 \<le> j" and "j < Size block i"
    and "0 \<le> k"
  shows "EvaluationToString_residuals s render block jacobians h i j result k =
     result @ concat (map (jacobian_cell_text s render block jacobians h i j)
                        [k .. NumResiduals block - 1])"
  using assms
proof (induction s render block jacobians h i j result k rule: EvaluationToString_residuals.induct)
  case (1 s render block jacobians h i j result k)
  show ?case
  proof (cases "k < NumResiduals block")
    case False
    then show ?thesis by (subst EvaluationToString_residuals.simps) simp
  next
    case True
    then have upt: "[k .. NumResiduals block - 1] = k # [k + 1 .. NumResiduals block - 1]"
      by (simp add: upto_rec1)
    have row: "c_int_mul k (Size block i) = k * Size block i"
      using "1.prems" True by (intro c_int_mul_row [where n = "NumResiduals block" and j = j]) auto
    have cell: "AppendArrayToString s render 1
        (case jacobians of None \<Rightarrow> None
         | Some J \<Rightarrow> (case J i of None \<Rightarrow> None | Some p \<Rightarrow> Some (p + c_int_mul k (Size block i) + j)))
        h result = result @ jacobian_cell_text s render block jacobians h i j k"
      by (simp add: row jacobian_cell_text_def AppendArrayToString_one_Some
          AppendArrayToString_one_None add.assoc split: option.splits)
    have "EvaluationToString_residuals s render block jacobians h i j result k =
        EvaluationToString_residuals s render block jacobians h i j
          (AppendArrayToString s render 1
             (case jacobians of None \<Rightarrow> None
              | Some J \<Rightarrow> (case J i of None \<Rightarrow> None
                            | Some p \<Rightarrow> Some (p + c_int_mul k (Size block i) + j)))
             h result) (k + 1)"
      using True by (subst EvaluationToString_residuals.simps) (simp only: if_True)
    also have "\<dots> = AppendArrayToString s render 1
             (case jacobians of None \<Rightarrow> None
              | Some J \<Rightarrow> (case J i of None \<Rightarrow> None
                            | Some p \<Rightarrow> Some (p + c_int_mul k (Size block i) + j)))
             h result @
           concat (map (jacobian_cell_text s render block jacobians h i j)
                     [k + 1 .. NumResiduals block - 1])"
      using "1.prems" by (intro "1.IH" [OF True]) auto
    finally show ?thesis
      by (simp add: upt cell)
  qed
qed

lemma EvaluationToString_parameters_eq:
  assumes "fits_int (NumResiduals block * Size block i)" and "0 \<le> j"
  shows "EvaluationToString_parameters s render block parameters jacobians h i result j =
     result @ concat (map (parameter_line_text s render block parameters jacobians h i)
                        [j .. Size block i - 1])"
  using assms
proof (induction s render block parameters jacobians h i result j
    rule: EvaluationToString_parameters.induct)
  case (1 s render block parameters jacobians h i result j)
  show ?case
  proof (cases "j < Size block i")
    case False
    then show ?thesis by (subst EvaluationToString_parameters.simps) simp
  next
    case True
    then have upt: "[j .. Size block i - 1] = j # [j + 1 .. Size block i - 1]"
      by (simp add: upto_rec1)
    let ?r1 = "AppendArrayToString s render 1 (Some (parameters i + j)) h result"
    let ?r2 = "?r1 @ ''| ''"
    let ?r3 = "EvaluationToString_residuals s render block jacobians h i j ?r2 0"
    let ?r4 = "?r3 @ ''\<newline>''"
    have "EvaluationToString_parameters s render block parameters jacobians h i result j =
        EvaluationToString_parameters s render block parameters jacobians h i ?r4 (j + 1)"
      using True by (subst EvaluationToString_parameters.simps) (simp only: if_True Let_def)
    also have "\<dots> = ?r4 @
           concat (map (parameter_line_text s render block parameters jacobians h i)
                     [j + 1 .. Size block i - 1])"
      using "1.prems" by (intro "1.IH" [OF True refl refl refl refl]) auto
    also have "?r4 = result @ parameter_line_text s render block parameters jacobians h i j"
      using "1.prems" True
      by (simp add: parameter_line_text_def AppendArrayToString_one_Some
          EvaluationToString_residuals_eq)
    finally show ?thesis
      by (simp add: upt)
  qed
qed

lemma EvaluationToString_blocks_eq:
  assumes "shape_fits_int block" and "0 \<le> i"
  shows "EvaluationToString_blocks s render block parameters jacobians h result i =
     result @ concat (map (parameter_block_text s render block parameters jacobians h)
                        [i .. NumParameterBlocks block - 1])"
  using assms
proof (induction s render block parameters jacobians h result i
    rule: EvaluationToString_blocks.induct)
  case (1 s render block parameters jacobians h result i)
  show ?case
  proof (cases "i < NumParameterBlocks block")
    case False
    then show ?thesis by (subst EvaluationToString_blocks.simps) simp
  next
    case True
    then have upt: "[i .. NumParameterBlocks block - 1] = i # [i + 1 .. NumParameterBlocks block - 1]"
      by (simp add: upto_rec1)
    from "1.prems" True have fits: "fits_int (NumResiduals block * Size block i)"
      by (simp add: shape_fits_int_iff)
    let ?r1 = "result @ ''Parameter Block '' @ string_of_int i @ '', size: '' @
                 string_of_int (Size block i) @ ''\<newline>''"
    let ?r2 = "?r1 @ ''\<newline>''"
    let ?r3 = "EvaluationToString_parameters s render block parameters jacobians h i ?r2 0"
    let ?r4 = "?r3 @ ''\<newline>''"
    have "EvaluationToString_blocks s render block parameters jacobians h result i =
        EvaluationToString_blocks s render block parameters jacobians h ?r4 (i + 1)"
      using True by (subst EvaluationToString_blocks.simps) (simp only: if_True Let_def)
    also have "\<dots> = ?r4 @
           concat (map (parameter_block_text s render block parameters jacobians h)
                     [i + 1 .. NumParameterBlocks block - 1])"
      using "1.prems" by (intro "1.IH" [OF True refl refl refl refl refl]) auto
    also have "?r4 = result @ parameter_block_text s render block parameters jacobians h i"
      using fits
      by (simp add: parameter_block_text_def EvaluationToString_parameters_eq)
    finally show ?thesis
      by (simp add: upt)
  qed
qed

lemma EvaluationErrorReportString_residual_entries_eq:
  "EvaluationErrorReportString_residual_entries s block residuals h result i = result"
proof (induction s block residuals h result i
    rule: EvaluationErrorReportString_residual_entries.induct)
  case (1 s block residuals h result i)
  show ?case
  proof (cases "i < NumResiduals block")
    case False
    then show ?thesis by (subst EvaluationErrorReportString_residual_entries.simps) simp
  next
    case True
    show ?thesis
    proof (cases "\<not> IsUserSuppliedValueValid s (h (residuals + i)) \<or> NumResiduals block < 50")
      case c: True
      have "EvaluationErrorReportString_residual_entries s block residuals h result i =
          EvaluationErrorReportString_residual_entries s block residuals h result (i + 1)"
        using True c
        by (subst EvaluationErrorReportString_residual_entries.simps) (simp add: Let_def)
      also note 1(1) [OF True c refl]
      finally show ?thesis .
    next
      case c: False
      have "EvaluationErrorReportString_residual_entries s block residuals h result i =
          EvaluationErrorReportString_residual_entries s block residuals h result (i + 1)"
        using True c
        by (subst EvaluationErrorReportString_residual_entries.simps) (simp add: Let_def)
      also note 1(2) [OF True c]
      finally show ?thesis .
    qed
  qed
qed

lemma EvaluationErrorReportString_residuals_eq:
  "EvaluationErrorReportString_residuals s block residuals h result =
     result @ (if IsArrayValid s (NumResiduals block) (Some residuals) h then ''''
               else ''Problem exists in: User-returned residual values (r[N])\<newline>\<newline>'')"
  by (simp add: EvaluationErrorReportString_residuals_def
      EvaluationErrorReportString_residual_entries_eq)

subsection \<open>Evaluating the scenarios\<close>

lemma example_sentinel_finite: "IsFinite example_sentinel"
  by (simp add: example_sentinel_def)

lemma example_sentinel_eq: "double_eq example_sentinel example_sentinel"
  by (simp add: example_sentinel_def)

lemma small_is_not_sentinel: "r < 1000 \<Longrightarrow> \<not> double_eq (Finite r) example_sentinel"
  by (simp add: example_sentinel_def)

lemma small_differs_from_sentinel: "r < 1000 \<Longrightarrow> Finite r \<noteq> example_sentinel"
  by (simp add: example_sentinel_def)

lemmas scenario_simps =
  scenario_block_def column_block_def scenario_heap_def memory_of_def
  one_block_at_def IsEvaluationValid_def IsEvaluationValid_over_def IsArrayValid_def
  IsArrayValid_null_tolerant_def NumResiduals_def NumParameterBlocks_def Size_def
  c_int_mul_def c_int_def IsEvaluationValid_over_from.simps IsArrayValid_from.simps
  example_sentinel_finite example_sentinel_eq small_is_not_sentinel small_differs_from_sentinel

lemma scenario_block_fits: "shape_fits_int scenario_block"
  by (simp add: shape_fits_int_def fits_int_def scenario_block_def NumResiduals_def
      NumParameterBlocks_def Size_def)

text \<open>
  Two residuals and a block of size \<open>2^30\<close>: the length that the code computes for the block is
  \<open>-2^31\<close>, not \<open>2^31\<close>.
\<close>

lemma product_wraps: "c_int_mul 2 1073741824 = - 2147483648"
  by (simp add: c_int_mul_def c_int_def)

subsection \<open>The verdict of IsEvaluationValid\<close>



text \<open>
  C2. If an entry of the residual vector, or an entry of a present Jacobian block \<open>i\<close> within its
  length \<open>NumResiduals * size_i\<close>, a product that fits an \<open>int\<close>, equals the sentinel or is NaN,
  +Infinity or -Infinity, then \<open>IsEvaluationValid\<close> returns false.
\<close>

theorem invalid_element_rejected:
  assumes bad: "v = s \<or> v = NaN \<or> v = PosInf \<or> v = NegInf"
    and place:
      "(\<exists>r k. residuals = Some r \<and> 0 \<le> k \<and> k < NumResiduals block \<and> h (r + k) = v) \<or>
       (\<exists>J i p k. jacobians = Some J \<and> 0 \<le> i \<and> i < NumParameterBlocks block \<and> J i = Some p \<and>
            fits_int (NumResiduals block * Size block i) \<and>
            0 \<le> k \<and> k < NumResiduals block * Size block i \<and> h (p + k) = v)"
  shows "\<not> IsEvaluationValid s block parameters cost residuals jacobians h"
proof -
  from bad have nok: "\<not> value_ok s v"
    by (auto simp: value_ok_def)
  from place show ?thesis
  proof
    assume "\<exists>r k. residuals = Some r \<and> 0 \<le> k \<and> k < NumResiduals block \<and> h (r + k) = v"
    then obtain r k where r: "residuals = Some r" and k: "0 \<le> k" "k < NumResiduals block"
      and v: "h (r + k) = v" by blast
    from k v nok have "\<not> IsArrayValid s (NumResiduals block) (Some r) h"
      by (auto simp: IsArrayValid_Some_iff)
    with r show ?thesis by (simp add: IsEvaluationValid_iff)
  next
    assume "\<exists>J i p k. jacobians = Some J \<and> 0 \<le> i \<and> i < NumParameterBlocks block \<and> J i = Some p \<and>
            fits_int (NumResiduals block * Size block i) \<and>
            0 \<le> k \<and> k < NumResiduals block * Size block i \<and> h (p + k) = v"
    then obtain J i p k where J: "jacobians = Some J" and i: "0 \<le> i" "i < NumParameterBlocks block"
      and p: "J i = Some p" and fits: "fits_int (NumResiduals block * Size block i)"
      and k: "0 \<le> k" "k < NumResiduals block * Size block i"
      and v: "h (p + k) = v" by blast
    from fits have len: "c_int_mul (NumResiduals block) (Size block i)
        = NumResiduals block * Size block i"
      by (simp add: c_int_mul_def c_int_fits)
    from k v nok have "\<not> IsArrayValid s (NumResiduals block * Size block i) (Some p) h"
      by (auto simp: IsArrayValid_Some_iff)
    with J i p len show ?thesis by (auto simp: IsEvaluationValid_iff)
  qed
qed

text \<open>Scenario B: the residuals are \<open>[1.0, sentinel]\<close>.\<close>

theorem invalid_element_rejected_witness:
  "(example_sentinel = example_sentinel \<or> example_sentinel = NaN \<or>
      example_sentinel = PosInf \<or> example_sentinel = NegInf)
   \<and> (0::int) \<le> 1 \<and> 1 < NumResiduals scenario_block
   \<and> (scenario_heap(11 := example_sentinel)) (10 + 1) = example_sentinel
   \<and> \<not> IsEvaluationValid example_sentinel scenario_block (\<lambda>i. 30) (Some 0) (Some 10)
       (Some (one_block_at (Some 20))) (scenario_heap(11 := example_sentinel))"
proof -
  let ?s = "example_sentinel"
  let ?h = "scenario_heap(11 := ?s)"
  have bad: "?s = ?s \<or> ?s = NaN \<or> ?s = PosInf \<or> ?s = NegInf" by simp
  have k: "(0::int) \<le> 1 \<and> 1 < NumResiduals scenario_block \<and> ?h (10 + 1) = ?s"
    by (simp add: scenario_block_def NumResiduals_def)
  then have place:
    "(\<exists>r k. Some (10::int) = Some r \<and> 0 \<le> k \<and> k < NumResiduals scenario_block \<and> ?h (r + k) = ?s) \<or>
     (\<exists>J i p k. Some (one_block_at (Some 20)) = Some J \<and> 0 \<le> i \<and>
         i < NumParameterBlocks scenario_block \<and> J i = Some p \<and>
         fits_int (NumResiduals scenario_block * Size scenario_block i) \<and>
         0 \<le> k \<and> k < NumResiduals scenario_block * Size scenario_block i \<and> ?h (p + k) = ?s)"
    by (intro disjI1 exI [of _ 10] exI [of _ 1]) simp
  have "\<not> IsEvaluationValid ?s scenario_block (\<lambda>i. 30) (Some 0) (Some 10)
       (Some (one_block_at (Some 20))) ?h"
    by (rule invalid_element_rejected [OF bad place])
  with bad k show ?thesis by blast
qed



text \<open>
  C4. For a residual block with \<open>NumResiduals > 0\<close> and a null residual pointer,
  \<open>IsEvaluationValid\<close> returns false, a null buffer of positive length being invalid as in 4.2 of
  the spec.
\<close>

theorem null_residuals_rejected:
  "0 < NumResiduals block \<Longrightarrow>
   \<not> IsEvaluationValid s block parameters cost None jacobians h"
  by (simp add: IsEvaluationValid_def IsEvaluationValid_over_def IsArrayValid_def)

theorem null_residuals_rejected_witness:
  "0 < NumResiduals scenario_block \<and>
   \<not> IsEvaluationValid example_sentinel scenario_block (\<lambda>i. 30) (Some 0) None
       (Some (one_block_at (Some 20))) scenario_heap"
proof -
  have n: "0 < NumResiduals scenario_block"
    by (simp add: scenario_block_def NumResiduals_def)
  have "\<not> IsEvaluationValid example_sentinel scenario_block (\<lambda>i. 30) (Some 0) None
       (Some (one_block_at (Some 20))) scenario_heap"
    by (rule null_residuals_rejected [OF n])
  with n show ?thesis by blast
qed

text \<open>
  C10. Two calls of \<open>IsEvaluationValid\<close> on the same residual and Jacobian pointers, in two
  memories that agree on the cells of the residual vector and of the present Jacobian blocks
  (the cells that the code reads), return the same verdict, whatever the two cost pointers, the
  two parameter tables and the rest of the two memories (the cost scalar and the parameter
  values among it) are.
\<close>

theorem verdict_independent_of_cost_and_parameters:
  assumes "\<forall>a. read_by_IsEvaluationValid block residuals jacobians a \<longrightarrow> h1 a = h2 a"
  shows "IsEvaluationValid s block parameters1 cost1 residuals jacobians h1
       = IsEvaluationValid s block parameters2 cost2 residuals jacobians h2"
proof -
  have res: "IsArrayValid s (NumResiduals block) residuals h1
           = IsArrayValid s (NumResiduals block) residuals h2"
    using assms by (intro IsArrayValid_cong) (simp add: read_by_IsEvaluationValid_def)
  have jac: "IsArrayValid s (c_int_mul (NumResiduals block) (Size block i)) (J i) h1
           = IsArrayValid s (c_int_mul (NumResiduals block) (Size block i)) (J i) h2"
    if "jacobians = Some J" "0 \<le> i" "i < NumParameterBlocks block" for J i
  proof (rule IsArrayValid_cong)
    fix a assume "in_array (c_int_mul (NumResiduals block) (Size block i)) (J i) a"
    with that have "in_jacobians_as_computed block jacobians a"
      by (auto simp: in_jacobians_as_computed_def list_ex_upto)
    with assms show "h1 a = h2 a" by (simp add: read_by_IsEvaluationValid_def)
  qed
  show ?thesis
    by (cases jacobians) (auto simp: IsEvaluationValid_iff res jac)
qed

text \<open>The cost cell 0 and the parameter cell 30 differ, and so do the cost and parameter pointers.\<close>

theorem verdict_independent_of_cost_and_parameters_witness:
  "IsEvaluationValid example_sentinel scenario_block (\<lambda>i. 30) (Some 0) (Some 10)
       (Some (one_block_at (Some 20))) scenario_heap
   = IsEvaluationValid example_sentinel scenario_block (\<lambda>i. 31) None (Some 10)
       (Some (one_block_at (Some 20))) (scenario_heap(0 := NaN, 30 := PosInf))"
proof -
  have agree: "\<forall>a. read_by_IsEvaluationValid scenario_block (Some 10)
        (Some (one_block_at (Some 20))) a \<longrightarrow>
      scenario_heap a = (scenario_heap(0 := NaN, 30 := PosInf)) a"
    by (auto simp: read_by_IsEvaluationValid_def in_array_def in_jacobians_as_computed_def
        c_int_mul_def c_int_def
        scenario_block_def NumResiduals_def NumParameterBlocks_def Size_def one_block_at_def)
  show ?thesis
    by (rule verdict_independent_of_cost_and_parameters [OF agree])
qed

subsection \<open>InvalidateEvaluation\<close>

text \<open>
  C5. For a residual block whose shape fits, \<open>InvalidateEvaluation\<close> overwrites with the sentinel
  exactly the cost scalar, the \<open>NumResiduals\<close> elements of the residual vector and, when the
  Jacobian array is not null, the \<open>NumResiduals * size_i\<close> elements of each block \<open>i\<close> whose
  pointer is not null: after the call every such cell holds the sentinel and every other cell
  of the memory holds what it held.
\<close>

theorem InvalidateEvaluation_writes_exactly:
  "shape_fits_int block \<Longrightarrow>
   InvalidateEvaluation s block cost residuals jacobians h a =
     (if written_by_InvalidateEvaluation block cost residuals jacobians a then s else h a)"
  by (simp add: InvalidateEvaluation_apply in_jacobians_as_computed_fits
      written_by_InvalidateEvaluation_def)

text \<open>
  The last Jacobian cell 25 is overwritten, the cell 26 behind it is not, and with the block's
  pointer null the cell 25 keeps its 0.6.
\<close>

theorem InvalidateEvaluation_writes_exactly_witness:
  "InvalidateEvaluation example_sentinel scenario_block (Some 0) (Some 10)
       (Some (one_block_at (Some 20))) scenario_heap 25 = example_sentinel
   \<and> InvalidateEvaluation example_sentinel scenario_block (Some 0) (Some 10)
       (Some (one_block_at (Some 20))) scenario_heap 26 = scenario_heap 26
   \<and> InvalidateEvaluation example_sentinel scenario_block (Some 0) (Some 10)
       (Some (one_block_at None)) scenario_heap 25 = Finite (6 / 10)"
  using InvalidateEvaluation_writes_exactly [OF scenario_block_fits, of example_sentinel "Some 0"
      "Some 10" "Some (one_block_at (Some 20))" scenario_heap 25]
    InvalidateEvaluation_writes_exactly [OF scenario_block_fits, of example_sentinel "Some 0"
      "Some 10" "Some (one_block_at (Some 20))" scenario_heap 26]
    InvalidateEvaluation_writes_exactly [OF scenario_block_fits, of example_sentinel "Some 0"
      "Some 10" "Some (one_block_at None)" scenario_heap 25]
  by (simp add: written_by_InvalidateEvaluation_def in_array_def in_jacobians_def
      scenario_block_def NumResiduals_def NumParameterBlocks_def Size_def one_block_at_def
      scenario_heap_def memory_of_def)

text \<open>
  C6. For a residual block with \<open>NumResiduals \<ge> 1\<close>, \<open>IsEvaluationValid\<close> on the memory that
  \<open>InvalidateEvaluation\<close> leaves, with the same buffers, returns false.
\<close>

theorem poison_then_validate:
  assumes "1 \<le> NumResiduals block"
  shows "\<not> IsEvaluationValid s block parameters cost residuals jacobians
            (InvalidateEvaluation s block cost residuals jacobians h)"
proof (cases residuals)
  case None
  with assms show ?thesis
    by (simp add: IsEvaluationValid_def IsEvaluationValid_over_def IsArrayValid_def)
next
  case (Some r)
  with assms have "in_array (NumResiduals block) residuals r"
    by (simp add: in_array_def)
  then have "InvalidateEvaluation s block cost residuals jacobians h r = s"
    by (simp add: InvalidateEvaluation_apply)
  then have "\<not> value_ok s (InvalidateEvaluation s block cost residuals jacobians h (r + 0))"
    by (simp add: value_ok_def)
  with assms have "\<not> IsArrayValid s (NumResiduals block) (Some r)
      (InvalidateEvaluation s block cost residuals jacobians h)"
    unfolding IsArrayValid_Some_iff by (intro notI) (metis order_refl less_le_trans zero_less_one)
  with Some show ?thesis by (simp add: IsEvaluationValid_iff)
qed

theorem poison_then_validate_witness:
  "1 \<le> NumResiduals scenario_block
   \<and> \<not> IsEvaluationValid example_sentinel scenario_block (\<lambda>i. 30) (Some 0) (Some 10)
       (Some (one_block_at (Some 20)))
       (InvalidateEvaluation example_sentinel scenario_block (Some 0) (Some 10)
          (Some (one_block_at (Some 20))) scenario_heap)"
proof -
  have n: "1 \<le> NumResiduals scenario_block"
    by (simp add: scenario_block_def NumResiduals_def)
  have "\<not> IsEvaluationValid example_sentinel scenario_block (\<lambda>i. 30) (Some 0) (Some 10)
       (Some (one_block_at (Some 20)))
       (InvalidateEvaluation example_sentinel scenario_block (Some 0) (Some 10)
          (Some (one_block_at (Some 20))) scenario_heap)"
    by (rule poison_then_validate [OF n])
  with n show ?thesis by blast
qed

subsection \<open>The error report\<close>

text \<open>
  C7. When the residual vector fails validation the report is to hold one line per printed
  entry, with the entry's index, its value and the commentary. Scenario B, residuals
  \<open>[1.0, sentinel]\<close>: the evaluation is invalid and the commentary of entry 1 is "ERROR: Value
  was not set by cost function", but the residual section that step (3) appends to the report is
  its heading and nothing else: no line for entry 1.
\<close>

theorem scenario_B_report_has_no_entry_lines:
  "\<not> IsEvaluationValid example_sentinel scenario_block (\<lambda>i. 30) (Some 0) (Some 10)
       (Some (one_block_at (Some 20))) (scenario_heap(11 := example_sentinel))
   \<and> UserSuppliedNumberCommentary example_sentinel ((scenario_heap(11 := example_sentinel)) 11)
       = ''ERROR: Value was not set by cost function''
   \<and> EvaluationErrorReportString_residuals example_sentinel scenario_block 10
       (scenario_heap(11 := example_sentinel)) ''''
       = ''Problem exists in: User-returned residual values (r[N])\<newline>\<newline>''"
  by (simp add: EvaluationErrorReportString_residuals_eq UserSuppliedNumberCommentary_def
      scenario_simps)

text \<open>
  C8. The Jacobian section of the report is to decide the validity of block \<open>i\<close> on the block's
  own buffer \<open>jacobians[i]\<close>. Two residuals \<open>[1.0, 2.0]\<close> and one parameter block of size 1 whose
  Jacobian is \<open>[0.1, sentinel]\<close>: the evaluation is invalid, and the test of steps (4) and (5)
  finds no problem in block 0, since it validates the residual vector.
\<close>

theorem unwritten_jacobian_not_reported:
  "\<not> IsEvaluationValid example_sentinel column_block (\<lambda>i. 30) (Some 0) (Some 10)
       (Some (one_block_at (Some 20))) (scenario_heap(21 := example_sentinel))
   \<and> \<not> EvaluationErrorReportString_jacobian_problem example_sentinel column_block 10
       (one_block_at (Some 20)) (scenario_heap(21 := example_sentinel)) 0"
  by (simp add: EvaluationErrorReportString_jacobian_problem_def scenario_simps)

subsection \<open>The full dump\<close>

text \<open>
  C9, as stated, has the dump producible for any buffers. With a null residual pointer
  \<open>EvaluationToString\<close> stops at \<open>CHECK_NOTNULL\<close> and produces no text.
\<close>

theorem EvaluationToString_null_residuals:
  "EvaluationToString example_sentinel (\<lambda>v. ''#'') scenario_block (\<lambda>i. 30) (Some 0) None
     (Some (one_block_at (Some 20))) scenario_heap = Inl CheckFailed"
  by (simp add: EvaluationToString_def)

text \<open>
  C9, amended. For a residual block whose shape fits, whenever the cost and residual pointers
  are not null, whatever the buffers hold, \<open>EvaluationToString\<close> returns the text of the
  specification: the heading and the explanation, the residuals, and per parameter block \<open>i\<close> one
  line per scalar parameter \<open>j\<close> with the parameter's value and then, for each residual \<open>k\<close>, the
  Jacobian entry at flat offset \<open>k * size_i + j\<close> of block \<open>i\<close>'s buffer; "Not Computed" for every
  cell of a block whose Jacobian pointer is null (or when the Jacobian array is null),
  "Uninitialized" wherever the value printed equals the sentinel.
\<close>

theorem EvaluationToString_layout:
  assumes "shape_fits_int block" and "cost \<noteq> None" and "residuals = Some r"
  shows "EvaluationToString s render block parameters cost residuals jacobians h =
           Inr (full_dump_text s render block parameters r jacobians h)"
  using assms
  by (simp add: EvaluationToString_def Let_def full_dump_text_def AppendArrayToString_def
      AppendArrayToString_from_eq EvaluationToString_blocks_eq)

text \<open>Scenario D: the only Jacobian block is absent.\<close>

theorem EvaluationToString_layout_witness:
  "Some (0::int) \<noteq> None
   \<and> EvaluationToString example_sentinel (\<lambda>v. ''#'') scenario_block (\<lambda>i. 30) (Some 0) (Some 10)
       (Some (one_block_at None)) scenario_heap
     = Inr (full_dump_text example_sentinel (\<lambda>v. ''#'') scenario_block (\<lambda>i. 30) 10
              (Some (one_block_at None)) scenario_heap)"
proof -
  have c: "Some (0::int) \<noteq> None" by simp
  have "EvaluationToString example_sentinel (\<lambda>v. ''#'') scenario_block (\<lambda>i. 30) (Some 0) (Some 10)
       (Some (one_block_at None)) scenario_heap
     = Inr (full_dump_text example_sentinel (\<lambda>v. ''#'') scenario_block (\<lambda>i. 30) 10
              (Some (one_block_at None)) scenario_heap)"
    by (rule EvaluationToString_layout [OF scenario_block_fits c refl])
  with c show ?thesis by blast
qed

text \<open>In scenario D the line of the third parameter shows "Not Computed" under both residuals.\<close>

lemma scenario_D_parameter_line:
  "parameter_line_text example_sentinel (\<lambda>v. ''#'') scenario_block (\<lambda>i. 30)
     (Some (one_block_at None)) scenario_heap 0 2 = ''#| Not ComputedNot Computed\<newline>''"
  by (simp add: parameter_line_text_def jacobian_cell_text_def value_text_def one_block_at_def
      scenario_block_def NumResiduals_def scenario_heap_def memory_of_def upto_rec1
      small_is_not_sentinel)

end
